theory Spec2Isabelle
  imports Main "HOL-Library.Sublist"
begin

section \<open>The compile-and-run package of index.js\<close>

text \<open>
  The package of \<^verbatim>\<open>src/index.js\<close> compiles the C or C++ file of the active editor (or the
  files selected in the tree view) with an external compiler and launches the binary in a
  terminal. Everything it does is a call on the editor host, the file system or the
  process library, so the model is a state-passing one: each method takes the world and
  returns the new world, whose \<open>trace\<close> lists the calls made, in order.
\<close>

subsection \<open>Configuration, paths and the host\<close>

text \<open>
  The values of \<^verbatim>\<open>atom.config.get("pulsar-gpp-compiler.<key>")\<close>. The key
  \<^verbatim>\<open>linuxTerminal\<close> is read by \<^verbatim>\<open>runProgram\<close> but is not declared in the \<^verbatim>\<open>config\<close>
  schema, so it has no default: \<open>None\<close> is JavaScript's \<^verbatim>\<open>undefined\<close>.
\<close>

record config =
  addCompilingErr :: bool
  splitDirection :: string
  debugMode :: bool
  cCompilerOptions :: string
  cppCompilerOptions :: string
  runAfterCompile :: bool
  showWarnings :: bool
  cCompiler :: string
  cppCompiler :: string
  compileToTmpDirectory :: bool
  closeErrorTabOnSuccess :: bool
  showErrorNotifications :: bool
  linuxTerminal :: "string option"

text \<open>The object returned by \<^verbatim>\<open>path.parse\<close>, as far as the package reads it.\<close>

record info =
  dir :: string
  base :: string
  name :: string
  ext :: string

text \<open>
  What the Node runtime supplies and the package does not define: \<^verbatim>\<open>process.platform\<close>,
  \<^verbatim>\<open>os.tmpdir()\<close>, \<^verbatim>\<open>path.join\<close> (used with two arguments only) and \<^verbatim>\<open>path.parse\<close>.
  They are parameters of the model.
\<close>

record runtime =
  platform :: string
  tmpdir :: string
  path_join :: "string \<Rightarrow> string \<Rightarrow> string"
  path_parse :: "string \<Rightarrow> info"

datatype js_error = TypeError string | SystemError string

fun message :: "js_error \<Rightarrow> string" where
  "message (TypeError m) = m"
| "message (SystemError m) = m"

text \<open>
  The active text editor: \<open>buffer_file\<close> is \<^verbatim>\<open>buffer.file.path\<close> (\<open>None\<close> when the buffer has
  no file), \<open>grammar\<close> is \<^verbatim>\<open>getGrammar().name\<close>.
\<close>

record editor =
  buffer_file :: "string option"
  grammar :: string

text \<open>
  What the editor host and the operating system answer during one command:
  \<^item> \<open>activeEditor\<close>: \<^verbatim>\<open>atom.workspace.getActiveTextEditor()\<close>, \<open>None\<close> for \<^verbatim>\<open>undefined\<close>;
  \<^item> \<open>textEditors\<close>: \<^verbatim>\<open>getPath()\<close> of each of \<^verbatim>\<open>atom.workspace.getTextEditors()\<close>;
  \<^item> \<open>grammars\<close>: name and \<^verbatim>\<open>fileTypes\<close> of each of \<^verbatim>\<open>atom.grammars.getGrammars()\<close>;
  \<^item> \<open>save_error\<close>, \<open>writeFile_error\<close>, \<open>unlink_error\<close>: the error with which
    \<^verbatim>\<open>editor.save()\<close>, \<^verbatim>\<open>fs.writeFile\<close>, \<^verbatim>\<open>fs.unlink\<close> reject, if they do;
  \<^item> \<open>open_result\<close>: \<^verbatim>\<open>atom.workspace.open\<close> of the diagnostics file rejects (\<open>Inl\<close>) or
    resolves, with an editor (\<open>Inr True\<close>) or with nothing (\<open>Inr False\<close>);
  \<^item> \<open>child\<close>: the chunks the compiler process delivers on its \<^verbatim>\<open>stderr\<close> stream (each
    the bytes of one \<^verbatim>\<open>data\<close> event, a Buffer) and the \<^verbatim>\<open>code\<close> of its
    \<^verbatim>\<open>close\<close> event (\<open>None\<close> is \<^verbatim>\<open>null\<close>: the process was ended by a signal).

  A JavaScript string is represented by its UTF-8 encoding, a list of bytes: the bytes
  that \<^verbatim>\<open>fs.writeFile\<close> writes for it. All strings of the model are well-formed (they
  are literals, configuration values, paths, or come out of the UTF-8 decoder), and in
  UTF-8 the bytes of the space and of the line feed occur only as these characters.
\<close>

record host =
  activeEditor :: "editor option"
  textEditors :: "string option list"
  grammars :: "(string \<times> string list) list"
  save_error :: "js_error option"
  writeFile_error :: "js_error option"
  open_result :: "js_error + bool"
  unlink_error :: "js_error option"
  child :: "string list \<times> int option"

subsection \<open>The world: files and the trace of calls\<close>

datatype level = Error | Warning | Success

text \<open>
  One constructor for each kind of call the package makes on its surroundings.
  \<open>Spawn\<close> is \<^verbatim>\<open>child_process.spawn(command, args, {cwd})\<close>, \<open>Exec\<close> is
  \<^verbatim>\<open>child_process.exec(command, {cwd})\<close>, which runs its string in a shell.
  \<open>SetReadOnly\<close> stands for the three calls \<^verbatim>\<open>setSoftTabs(false)\<close>,
  \<^verbatim>\<open>setSoftWrapped(true)\<close> and \<^verbatim>\<open>setReadOnly(true)\<close> on the opened diagnostics file,
  \<open>ActivateContainer\<close> for \<^verbatim>\<open>paneContainerForItem(errorFile).activate()\<close>,
  \<open>ActivatePane\<close> for \<^verbatim>\<open>activePane.activate()\<close>, \<open>Destroy p\<close> for \<^verbatim>\<open>destroy()\<close> on
  a text editor whose path is \<open>p\<close>, \<open>Access\<close> and \<open>Unlink\<close> for \<^verbatim>\<open>fs.access\<close> and
  \<^verbatim>\<open>fs.unlink\<close>. \<open>ConsoleError\<close> is \<^verbatim>\<open>console.error\<close>, \<open>ConsoleInfo\<close> is
  \<^verbatim>\<open>this.debug\<close> under the debug option; of both only the first argument is recorded.
\<close>

datatype event =
    Notify level string
  | Save
  | Spawn "string option" "string list" string
  | Exec string string
  | WriteFile string string
  | Open string "string option"
  | SetReadOnly
  | ActivateContainer
  | ActivatePane
  | Destroy string
  | Access string
  | Unlink string
  | ConsoleError string
  | ConsoleInfo string

record world =
  files :: "string \<rightharpoonup> string"
  trace :: "event list"

text \<open>How an \<^verbatim>\<open>async\<close> method ends: its promise resolves, rejects, or never settles.\<close>

datatype outcome = Resolved | Rejected js_error | Pending

definition emit :: "event list \<Rightarrow> world \<Rightarrow> world" where
  "emit es w = w\<lparr>trace := trace w @ es\<rparr>"

definition debug :: "config \<Rightarrow> string \<Rightarrow> event list" where
  "debug cfg label = (if debugMode cfg then [ConsoleInfo label] else [])"

subsection \<open>Pure helpers\<close>

text \<open>\<^verbatim>\<open>String.prototype.split\<close> with a one-character separator: every occurrence of the
  separator ends a piece, so the result has one piece more than there are separators.\<close>

fun js_split :: "char \<Rightarrow> string \<Rightarrow> string list" where
  "js_split sep [] = [[]]"
| "js_split sep (c # cs) =
     (if c = sep then [] # js_split sep cs
      else (case js_split sep cs of [] \<Rightarrow> [[c]] | t # ts \<Rightarrow> (c # t) # ts))"

text \<open>\<^verbatim>\<open>Boolean(s)\<close> for a string: only the empty string is falsy.\<close>

definition truthy_string :: "string \<Rightarrow> bool" where
  "truthy_string s = (s \<noteq> [])"

text \<open>\<^verbatim>\<open>if (code)\<close> for the exit code: \<^verbatim>\<open>null\<close> and \<open>0\<close> are falsy.\<close>

fun truthy_code :: "int option \<Rightarrow> bool" where
  "truthy_code None = False"
| "truthy_code (Some n) = (n \<noteq> 0)"

text \<open>
  \<^verbatim>\<open>stderr += data\<close> converts the Buffer \<open>data\<close> with \<^verbatim>\<open>toString()\<close>, which decodes it
  as UTF-8 on its own, as the WHATWG decoder does: a lead byte fixes how many continuation
  bytes are needed and the range of the first of them; a byte that does not fit ends the
  sequence with the replacement character U+FFFD and is looked at again as the start of a
  new sequence; a sequence still open at the end of the chunk gives U+FFFD as well.
  Decoded characters are written here in the representation of strings: a complete
  sequence as its own bytes, U+FFFD as \<^verbatim>\<open>EF BF BD\<close>.
\<close>

definition replacement :: string where
  "replacement = [CHR 0xEF, CHR 0xBF, CHR 0xBD]"

definition continuation :: "nat \<Rightarrow> nat \<Rightarrow> char \<Rightarrow> bool" where
  "continuation lo hi b = (lo \<le> of_char b \<and> (of_char b :: nat) \<le> hi)"

definition lead_byte :: "char \<Rightarrow> (nat \<times> nat \<times> nat) option" where
  "lead_byte b =
     (let v = of_char b :: nat in
      if 0xC2 \<le> v \<and> v \<le> 0xDF then Some (1, 0x80, 0xBF)
      else if v = 0xE0 then Some (2, 0xA0, 0xBF)
      else if v = 0xED then Some (2, 0x80, 0x9F)
      else if 0xE1 \<le> v \<and> v \<le> 0xEF then Some (2, 0x80, 0xBF)
      else if v = 0xF0 then Some (3, 0x90, 0xBF)
      else if v = 0xF4 then Some (3, 0x80, 0x8F)
      else if 0xF1 \<le> v \<and> v \<le> 0xF3 then Some (3, 0x80, 0xBF)
      else None)"

fun utf8_decode :: "nat \<Rightarrow> nat \<Rightarrow> nat \<Rightarrow> string \<Rightarrow> string \<Rightarrow> string" where
  "utf8_decode needed lo hi seen [] = (if needed = 0 then [] else replacement)"
| "utf8_decode needed lo hi seen (b # bs) =
     (if needed \<noteq> 0 \<and> continuation lo hi b then
        (if needed = 1 then seen @ [b] @ utf8_decode 0 0x80 0xBF [] bs
         else utf8_decode (needed - 1) 0x80 0xBF (seen @ [b]) bs)
      else
        (if needed \<noteq> 0 then replacement else []) @
        (if (of_char b :: nat) < 0x80 then b # utf8_decode 0 0x80 0xBF [] bs
         else (case lead_byte b of
                 Some (n, l, u) \<Rightarrow> utf8_decode n l u [b] bs
               | None \<Rightarrow> replacement @ utf8_decode 0 0x80 0xBF [] bs)))"

definition toString :: "string \<Rightarrow> string" where
  "toString data = utf8_decode 0 0x80 0xBF [] data"

text \<open>\<^verbatim>\<open>let stderr = ""\<close> and then \<^verbatim>\<open>stderr += data\<close> for each chunk.\<close>

definition collect_stderr :: "string list \<Rightarrow> string" where
  "collect_stderr chunks = foldl (\<lambda>stderr data. stderr @ toString data) [] chunks"

text \<open>\<^verbatim>\<open>stderr.replace(/\n/g, "<br/>")\<close>.\<close>

definition br :: "string \<Rightarrow> string" where
  "br s = concat (map (\<lambda>c. if c = CHR 0x0A then ''<br/>'' else [c]) s)"

definition getCommand :: "config \<Rightarrow> string option \<Rightarrow> string option" where
  "getCommand cfg fileType =
     (if fileType = Some ''C'' then Some (cCompiler cfg)
      else if fileType = Some ''C++'' then Some (cppCompiler cfg)
      else None)"

definition getCompiledPath :: "config \<Rightarrow> runtime \<Rightarrow> string \<Rightarrow> string \<Rightarrow> string" where
  "getCompiledPath cfg rt d b =
     (if compileToTmpDirectory cfg then path_join rt (tmpdir rt) b
      else path_join rt d b)"

text \<open>
  \<^verbatim>\<open>getArgs(files, output, fileType, extraArgs)\<close>; \<open>None\<close> for \<open>extraArgs\<close> is the
  \<^verbatim>\<open>null\<close> the callers pass when no debugger is wanted. Its \<^verbatim>\<open>this.debug\<close> call is
  emitted by the callers below, at the place where they evaluate \<open>getArgs\<close>.
\<close>

definition getArgs ::
  "config \<Rightarrow> string list \<Rightarrow> string \<Rightarrow> string option \<Rightarrow> string list option \<Rightarrow> string list" where
  "getArgs cfg fs output fileType extraArgs =
     (case extraArgs of None \<Rightarrow> [] | Some e \<Rightarrow> e) @ fs @ [''-o'', output] @
     filter truthy_string
       (js_split CHR '' ''
          (if fileType = Some ''C++'' then cppCompilerOptions cfg else cCompilerOptions cfg))"

fun lookup_grammar :: "string \<Rightarrow> (string \<times> string list) list \<Rightarrow> string option" where
  "lookup_grammar e [] = None"
| "lookup_grammar e ((n, fts) # gs) =
     (if list_ex (\<lambda>ft. e = CHR ''.'' # ft) fts then Some n else lookup_grammar e gs)"

text \<open>\<^verbatim>\<open>getFileType(ext)\<close>: \<open>None\<close> or the empty string for \<open>ext\<close> takes the second
  branch, which reads the active editor and throws when there is none.\<close>

definition getFileType :: "host \<Rightarrow> string option \<Rightarrow> js_error + string option" where
  "getFileType h e =
     (case e of
        Some (c # cs) \<Rightarrow> Inr (lookup_grammar (c # cs) (grammars h))
      | _ \<Rightarrow>
        (case activeEditor h of
           None \<Rightarrow> Inl (TypeError ''Cannot read properties of undefined (reading getGrammar)'')
         | Some ed \<Rightarrow> Inr (Some (grammar ed))))"

definition getFilePath :: "host \<Rightarrow> js_error + string option" where
  "getFilePath h =
     (case activeEditor h of
        None \<Rightarrow> Inl (TypeError ''Cannot read properties of undefined (reading buffer)'')
      | Some ed \<Rightarrow> Inr (buffer_file ed))"

subsection \<open>runProgram\<close>

text \<open>The \<^verbatim>\<open>switch (terminal)\<close> of the Linux branch: the terminal's command and the
  value of \<^verbatim>\<open>args\<close>.\<close>

definition linux_terminal :: "string option \<Rightarrow> bool \<Rightarrow> string \<times> string list" where
  "linux_terminal terminal gdb =
     (if terminal = Some ''GNOME Terminal'' then (''gnome-terminal'', [''--command''])
      else if terminal = Some ''Konsole'' then
        (''konsole'', (if gdb then [] else [''--hold'']) @ [''-e''])
      else if terminal = Some ''xfce4-terminal'' then
        (''xfce4-terminal'', (if gdb then [] else [''--hold'']) @ [''--command''])
      else if terminal = Some ''pantheon-terminal'' then (''pantheon-terminal'', [''-e''])
      else if terminal = Some ''URxvt'' then
        (''urxvt'', (if gdb then [] else [''-hold'']) @ [''-e''])
      else if terminal = Some ''MATE Terminal'' then (''mate-terminal'', [''--command''])
      else (''xterm'', (if gdb then [] else [''-hold'']) @ [''-e'']))"

text \<open>The template string of the Windows branch; \<open>CHR 0x22\<close> is the double quote.\<close>

definition windows_command :: "info \<Rightarrow> string \<Rightarrow> bool \<Rightarrow> string" where
  "windows_command info f gdb =
     ''start '' @ [CHR 0x22] @ name info @ [CHR 0x22] @ '' cmd /C '' @ [CHR 0x22] @
     (if gdb then ''gdb'' else []) @ '' '' @ f @ '' '' @
     (if gdb then [] else ''& echo. & pause'')"

definition runProgram :: "config \<Rightarrow> runtime \<Rightarrow> info \<Rightarrow> bool \<Rightarrow> event list" where
  "runProgram cfg rt info gdb =
     (let f = getCompiledPath cfg rt (dir info) (name info) in
      if platform rt = ''linux'' then
        (case linux_terminal (linuxTerminal cfg) gdb of
           (terminalCommand, args) \<Rightarrow>
             debug cfg ''command'' @
             [Spawn (Some terminalCommand) (args @ (if gdb then [''gdb''] else []) @ [f]) (dir info)])
      else if platform rt = ''win32'' then
        debug cfg ''command'' @ [Exec (windows_command info f gdb) (dir info)]
      else if platform rt = ''darwin'' then
        [Spawn (Some ''open'') [f] (dir info)]
      else [])"

subsection \<open>compile\<close>

definition artifact :: "runtime \<Rightarrow> info \<Rightarrow> string" where
  "artifact rt info = path_join rt (dir info) ''compiling_error.txt''"

text \<open>
  The \<^verbatim>\<open>try\<close> block of the failure branch. Each call is recorded when it is made; a
  rejected call leaves the block for the \<^verbatim>\<open>catch\<close>, which calls \<^verbatim>\<open>console.error\<close>. A
  rejected \<^verbatim>\<open>fs.writeFile\<close> is taken to leave the files as they were. When
  \<^verbatim>\<open>open\<close> resolves with nothing, \<^verbatim>\<open>paneContainerForItem\<close> finds no container and the
  call of \<^verbatim>\<open>activate\<close> on its result throws.
\<close>

definition write_error_file :: "config \<Rightarrow> runtime \<Rightarrow> host \<Rightarrow> info \<Rightarrow> string \<Rightarrow> world \<Rightarrow> world" where
  "write_error_file cfg rt h info stderr w =
     (let p = artifact rt info;
          caught = [ConsoleError ''Error writing compiling_error.txt:''];
          w1 = emit [WriteFile p stderr] w
      in case writeFile_error h of
           Some e \<Rightarrow> emit caught w1
         | None \<Rightarrow>
             (let w2 = emit (debug cfg ''compiling_error.txt has been written successfully.'' @
                             [Open p (Some (splitDirection cfg))])
                            (w1\<lparr>files := (files w1)(p \<mapsto> stderr)\<rparr>)
              in case open_result h of
                   Inl e \<Rightarrow> emit caught w2
                 | Inr False \<Rightarrow> emit caught w2
                 | Inr True \<Rightarrow> emit [SetReadOnly, ActivateContainer, ActivatePane] w2))"

text \<open>The second \<^verbatim>\<open>try\<close> block of the success branch: \<^verbatim>\<open>fs.access\<close> rejects when the
  file does not exist, and then \<^verbatim>\<open>fs.unlink\<close> is not reached.\<close>

definition delete_error_file :: "config \<Rightarrow> runtime \<Rightarrow> host \<Rightarrow> info \<Rightarrow> world \<Rightarrow> world" where
  "delete_error_file cfg rt h info w =
     (let p = artifact rt info;
          caught = debug cfg ''Error deleting compiling_error.txt:'';
          w1 = emit [Access p] w
      in if files w1 p = None then emit caught w1
         else
           (let w2 = emit [Unlink p] w1
            in case unlink_error h of
                 Some e \<Rightarrow> emit caught w2
               | None \<Rightarrow>
                   emit (debug cfg ''compiling_error.txt has been deleted successfully.'')
                        (w2\<lparr>files := (files w2)(p := None)\<rparr>)))"

text \<open>The handler of the child's \<^verbatim>\<open>close\<close> event. \<open>resolve()\<close> is called in the success
  branch only, so after a failed compilation the promise of \<open>compile\<close> stays pending.\<close>

definition on_close ::
  "config \<Rightarrow> runtime \<Rightarrow> host \<Rightarrow> info \<Rightarrow> bool \<Rightarrow> string \<Rightarrow> int option \<Rightarrow> world \<Rightarrow> world \<times> outcome" where
  "on_close cfg rt h info gdb stderr code w =
     (let w0 = emit (debug cfg ''exit code'') w in
      if truthy_code code then
        (let w1 = emit (if showErrorNotifications cfg then [Notify Error (br stderr)] else []) w0
         in (if addCompilingErr cfg then write_error_file cfg rt h info stderr w1 else w1, Pending))
      else
        (let w1 = emit (if stderr \<noteq> [] \<and> showWarnings cfg
                        then [Notify Warning (br stderr)] else []) w0;
             w2 = emit (if runAfterCompile cfg then runProgram cfg rt info gdb
                        else [Notify Success ''Compilation Successful'']) w1;
             w3 = emit (if closeErrorTabOnSuccess cfg
                        then map Destroy
                               (filter (\<lambda>p. p = artifact rt info)
                                  (List.map_filter (\<lambda>p. p) (textEditors h)))
                        else []) w2;
             w4 = delete_error_file cfg rt h info w3
         in (emit [Open (path_join rt (dir info) (base info)) None, ActivatePane] w4, Resolved)))"

text \<open>
  \<^verbatim>\<open>compile(command, info, args, gdb)\<close>. \<^verbatim>\<open>spawn\<close> is called with the command as it
  was given; Node throws a \<^verbatim>\<open>TypeError\<close> for a command that is not a string, inside the
  promise's executor, which rejects the promise. The model follows a child that starts,
  writes its chunks and closes; a spawn that fails for want of the executable is not part
  of it.
\<close>

definition compile ::
  "config \<Rightarrow> runtime \<Rightarrow> host \<Rightarrow> string option \<Rightarrow> info \<Rightarrow> string list \<Rightarrow> bool \<Rightarrow> world
     \<Rightarrow> world \<times> outcome" where
  "compile cfg rt h command info args gdb w =
     (let w1 = (case activeEditor h of None \<Rightarrow> w | Some ed \<Rightarrow> emit [Save] w) in
      case (case activeEditor h of None \<Rightarrow> None | Some ed \<Rightarrow> save_error h) of
        Some e \<Rightarrow> (w1, Rejected e)
      | None \<Rightarrow>
          (let w2 = emit [Spawn command args (dir info)] w1 in
           case command of
             None \<Rightarrow>
               (w2, Rejected (TypeError
                  ''The file argument must be of type string. Received undefined''))
           | Some c \<Rightarrow>
               on_close cfg rt h info gdb (collect_stderr (fst (child h))) (snd (child h))
                 (emit (concat (map (\<lambda>data. debug cfg ''stderr'') (fst (child h)))) w2)))"

subsection \<open>The commands\<close>

definition compileFile ::
  "config \<Rightarrow> runtime \<Rightarrow> host \<Rightarrow> string option \<Rightarrow> bool \<Rightarrow> world \<Rightarrow> world \<times> outcome" where
  "compileFile cfg rt h fileType gdb w =
     (case getFilePath h of
        Inl e \<Rightarrow> (w, Rejected e)
      | Inr None \<Rightarrow>
          (emit [Notify Error ''<strong>File not found.</strong><br/>Save before compiling.''] w,
           Resolved)
      | Inr (Some filePath) \<Rightarrow>
          (let info = path_parse rt filePath;
               args = getArgs cfg [filePath] (getCompiledPath cfg rt (dir info) (name info))
                        fileType (if gdb then Some [''-g''] else None)
           in case compile cfg rt h (getCommand cfg fileType) info args gdb
                     (emit (debug cfg ''compiler args'') w) of
                (w', Rejected e) \<Rightarrow>
                  (emit [Notify Error (''<strong>Error:</strong><br/>'' @ message e)] w', Resolved)
              | r \<Rightarrow> r))"

text \<open>
  \<^verbatim>\<open>treeCompile(e, gdb)\<close>: \<open>selected\<close> are the \<^verbatim>\<open>data-path\<close> attributes of the selected
  tree-view entries, \<open>target\<close> the one of the entry the command was invoked on.
\<close>

definition treeCompile ::
  "config \<Rightarrow> runtime \<Rightarrow> host \<Rightarrow> string list \<Rightarrow> string \<Rightarrow> bool \<Rightarrow> world \<Rightarrow> world \<times> outcome" where
  "treeCompile cfg rt h selected target gdb w =
     (let info = path_parse rt target in
      case getFileType h (Some (ext info)) of
        Inl e \<Rightarrow> (w, Rejected e)
      | Inr fileType \<Rightarrow>
          (let args = getArgs cfg selected (getCompiledPath cfg rt (dir info) (name info))
                        fileType (if gdb then Some [''-g''] else None)
           in case compile cfg rt h (getCommand cfg fileType) info args gdb
                     (emit (debug cfg ''compiler args'') w) of
                (w', Rejected e) \<Rightarrow>
                  (emit [Notify Error (''<strong>Error:</strong><br/>'' @ message e)] w', Resolved)
              | r \<Rightarrow> r))"

text \<open>The editor commands \<^verbatim>\<open>pulsar-gpp-compiler:compile\<close> (\<open>gdb\<close> is \<^verbatim>\<open>undefined\<close>, which
  every test of it treats as false) and \<^verbatim>\<open>pulsar-gpp-compiler:gdb\<close>.\<close>

definition command_compile :: "config \<Rightarrow> runtime \<Rightarrow> host \<Rightarrow> bool \<Rightarrow> world \<Rightarrow> world \<times> outcome" where
  "command_compile cfg rt h gdb w =
     (case getFileType h None of
        Inl e \<Rightarrow> (w, Rejected e)
      | Inr fileType \<Rightarrow> compileFile cfg rt h fileType gdb w)"

section \<open>The specification's vocabulary\<close>

text \<open>
  The specification speaks of splitting the extra flags "on whitespace with empty tokens
  discarded". \<open>tokens P\<close> is that splitting for a class \<open>P\<close> of separating characters:
  the maximal runs of characters outside \<open>P\<close>, from left to right.
\<close>

function tokens :: "(char \<Rightarrow> bool) \<Rightarrow> string \<Rightarrow> string list" where
  "tokens P s =
     (case dropWhile P s of
        [] \<Rightarrow> []
      | c # t \<Rightarrow> (c # takeWhile (\<lambda>x. \<not> P x) t) # tokens P (dropWhile (\<lambda>x. \<not> P x) t))"
  by pat_completeness auto
termination
proof (relation "measure (\<lambda>(P, s). length s)")
  show "wf (measure (\<lambda>(P :: char \<Rightarrow> bool, s :: string). length s))"
    by simp
next
  fix P :: "char \<Rightarrow> bool" and s :: string and c :: char and t :: string
  assume "dropWhile P s = c # t"
  then have "Suc (length t) \<le> length s"
    using length_dropWhile_le [of P s] by simp
  moreover have "length (dropWhile (\<lambda>x. \<not> P x) t) \<le> length t"
    by (rule length_dropWhile_le)
  ultimately show "((P, dropWhile (\<lambda>x. \<not> P x) t), (P, s)) \<in> measure (\<lambda>(P, s). length s)"
    by simp
qed

text \<open>
  Well-formed UTF-8, after the table of the Unicode standard: an ASCII byte, or a lead byte
  with its first continuation byte in the range the lead allows and the remaining ones
  between \<^verbatim>\<open>80\<close> and \<^verbatim>\<open>BF\<close>.
\<close>

fun well_formed_utf8 :: "string \<Rightarrow> bool" where
  "well_formed_utf8 [] = True"
| "well_formed_utf8 (b # bs) =
     (if (of_char b :: nat) < 0x80 then well_formed_utf8 bs
      else (case lead_byte b of
              None \<Rightarrow> False
            | Some (n, lo, hi) \<Rightarrow>
                (case bs of
                   [] \<Rightarrow> False
                 | c # cs \<Rightarrow>
                     continuation lo hi c \<and> n - 1 \<le> length cs \<and>
                     list_all (continuation 0x80 0xBF) (take (n - 1) cs) \<and>
                     well_formed_utf8 (drop (n - 1) cs))))"

text \<open>Whitespace: space, tab, line feed, vertical tab, form feed, carriage return.\<close>

definition is_whitespace :: "char \<Rightarrow> bool" where
  "is_whitespace c = (c \<in> set [CHR 0x20, CHR 0x09, CHR 0x0A, CHR 0x0B, CHR 0x0C, CHR 0x0D])"

definition is_space :: "char \<Rightarrow> bool" where
  "is_space c = (c = CHR 0x20)"

text \<open>
  The specification's TerminalSpec: a command, an argument prefix and an optional
  hold-open flag, one entry for each supported terminal emulator and one default. The
  specification does not list the entries; they are the data of the cases of
  \<^verbatim>\<open>switch (terminal)\<close>, with the flag that a case adds only without the debugger
  as its hold-open flag.
\<close>

record TerminalSpec =
  command :: string
  argsPrefix :: "string list"
  holdFlag :: "string option"

definition supported_terminals :: "string list" where
  "supported_terminals =
     [''GNOME Terminal'', ''Konsole'', ''xfce4-terminal'', ''pantheon-terminal'', ''URxvt'',
      ''MATE Terminal'']"

definition default_terminal :: TerminalSpec where
  "default_terminal = \<lparr>command = ''xterm'', argsPrefix = [''-e''], holdFlag = Some ''-hold''\<rparr>"

definition terminal_table :: "(string \<times> TerminalSpec) list" where
  "terminal_table =
     [(''GNOME Terminal'',
         \<lparr>command = ''gnome-terminal'', argsPrefix = [''--command''], holdFlag = None\<rparr>),
      (''Konsole'',
         \<lparr>command = ''konsole'', argsPrefix = [''-e''], holdFlag = Some ''--hold''\<rparr>),
      (''xfce4-terminal'',
         \<lparr>command = ''xfce4-terminal'', argsPrefix = [''--command''], holdFlag = Some ''--hold''\<rparr>),
      (''pantheon-terminal'',
         \<lparr>command = ''pantheon-terminal'', argsPrefix = [''-e''], holdFlag = None\<rparr>),
      (''URxvt'',
         \<lparr>command = ''urxvt'', argsPrefix = [''-e''], holdFlag = Some ''-hold''\<rparr>),
      (''MATE Terminal'',
         \<lparr>command = ''mate-terminal'', argsPrefix = [''--command''], holdFlag = None\<rparr>)]"

definition terminal_spec :: "string option \<Rightarrow> TerminalSpec" where
  "terminal_spec choice =
     (case choice of
        None \<Rightarrow> default_terminal
      | Some t \<Rightarrow> (case map_of terminal_table t of None \<Rightarrow> default_terminal | Some ts \<Rightarrow> ts))"

definition is_hold_flag :: "string \<Rightarrow> bool" where
  "is_hold_flag a = (a = ''--hold'' \<or> a = ''-hold'')"

text \<open>Events that show something to the user, and events that start a process.\<close>

fun is_notification :: "event \<Rightarrow> bool" where
  "is_notification (Notify l m) = True"
| "is_notification e = False"

fun is_launch :: "event \<Rightarrow> bool" where
  "is_launch (Spawn c a d) = True"
| "is_launch (Exec c d) = True"
| "is_launch e = False"

fun is_write :: "event \<Rightarrow> bool" where
  "is_write (WriteFile p c) = True"
| "is_write e = False"

fun is_spawn :: "event \<Rightarrow> bool" where
  "is_spawn (Spawn c a d) = True"
| "is_spawn e = False"

text \<open>Events of the clean-up after a successful compilation.\<close>

fun is_cleanup :: "event \<Rightarrow> bool" where
  "is_cleanup (Destroy p) = True"
| "is_cleanup (Access p) = True"
| "is_cleanup (Unlink p) = True"
| "is_cleanup e = False"

text \<open>The calls made between two worlds.\<close>

definition new_events :: "world \<Rightarrow> world \<Rightarrow> event list" where
  "new_events w w' = drop (length (trace w)) (trace w')"

section \<open>Concrete inputs\<close>

definition cfg0 :: config where
  "cfg0 = \<lparr>addCompilingErr = True, splitDirection = ''down'', debugMode = False,
     cCompilerOptions = [], cppCompilerOptions = [], runAfterCompile = True,
     showWarnings = True, cCompiler = ''gcc'', cppCompiler = ''g++'',
     compileToTmpDirectory = True, closeErrorTabOnSuccess = True,
     showErrorNotifications = False, linuxTerminal = None\<rparr>"

text \<open>A stand-in for the POSIX \<^verbatim>\<open>path\<close> module on paths that need no normalising;
  \<open>parse0\<close> answers for the one path the examples use.\<close>

definition join0 :: "string \<Rightarrow> string \<Rightarrow> string" where
  "join0 d b = d @ ''/'' @ b"

definition parse0 :: "string \<Rightarrow> info" where
  "parse0 p = \<lparr>dir = ''/home/u'', base = ''main.c'', name = ''main'', ext = ''.c''\<rparr>"

definition info0 :: info where
  "info0 = parse0 ''/home/u/main.c''"

definition rt0 :: runtime where
  "rt0 = \<lparr>platform = ''linux'', tmpdir = ''/tmp'', path_join = join0, path_parse = parse0\<rparr>"

definition ed0 :: editor where
  "ed0 = \<lparr>buffer_file = Some ''/home/u/main.c'', grammar = ''C''\<rparr>"

definition host0 :: host where
  "host0 = \<lparr>activeEditor = Some ed0, textEditors = [Some ''/home/u/main.c''],
     grammars = [(''C'', [''c'', ''h'']), (''C++'', [''cpp'', ''cc'', ''hpp''])],
     save_error = None, writeFile_error = None, open_result = Inr True,
     unlink_error = None, child = ([], Some 0)\<rparr>"

definition w0 :: world where
  "w0 = \<lparr>files = Map.empty, trace = []\<rparr>"

text \<open>Extra flags with a tab between two options, and with spaces around them.\<close>

definition cfg_tab :: config where
  "cfg_tab = cfg0\<lparr>cCompilerOptions := ''-O2'' @ [CHR 0x09] @ ''-Wall''\<rparr>"

definition cfg_flags :: config where
  "cfg_flags = cfg0\<lparr>cppCompilerOptions := '' -O2  -Wall ''\<rparr>"

text \<open>Terminal choices, the other platforms, and compilers that fail.\<close>

definition cfg_konsole :: config where
  "cfg_konsole = cfg0\<lparr>linuxTerminal := Some ''Konsole''\<rparr>"

definition cfg_gnome :: config where
  "cfg_gnome = cfg0\<lparr>linuxTerminal := Some ''GNOME Terminal''\<rparr>"

definition rt_win :: runtime where
  "rt_win = rt0\<lparr>platform := ''win32''\<rparr>"

definition rt_darwin :: runtime where
  "rt_darwin = rt0\<lparr>platform := ''darwin''\<rparr>"

definition host_fail :: host where
  "host_fail = host0\<lparr>child := ([''main.c:1: error: '', ''x undeclared''], Some 1)\<rparr>"



definition host_tab :: host where
  "host_tab = host0\<lparr>textEditors := [Some ''/home/u/main.c'', Some ''/home/u/compiling_error.txt'']\<rparr>"

definition host_none :: host where
  "host_none = host0\<lparr>activeEditor := None\<rparr>"

definition host_untitled :: host where
  "host_untitled = host0\<lparr>activeEditor := Some (ed0\<lparr>buffer_file := None\<rparr>)\<rparr>"

definition cfg_norun :: config where
  "cfg_norun = cfg0\<lparr>runAfterCompile := False\<rparr>"

text \<open>The world that a failed compilation leaves behind.\<close>

definition w_failed :: world where
  "w_failed = fst (compile cfg0 rt0 host_fail (Some ''gcc'') info0 [''main.c''] False w0)"

section \<open>Splitting the extra flags\<close>

text \<open>
  \<^verbatim>\<open>split(" ").filter(Boolean)\<close> computes the maximal runs of characters other than the
  space: the pieces before the first separator are found by \<open>takeWhile\<close>, and the empty
  pieces that consecutive, leading and trailing separators leave are the ones that
  \<open>filter\<close> removes.
\<close>

declare tokens.simps [simp del]

lemma js_split_not_Nil: "js_split sep s \<noteq> []"
  by (induction s) (auto split: list.splits)

lemma js_split_unfold:
  "js_split sep s =
     takeWhile (\<lambda>x. x \<noteq> sep) s #
     (case dropWhile (\<lambda>x. x \<noteq> sep) s of [] \<Rightarrow> [] | x # r \<Rightarrow> js_split sep r)"
proof (induction s)
  case Nil
  show ?case by simp
next
  case (Cons c cs)
  show ?case
  proof (cases "c = sep")
    case True
    then show ?thesis by simp
  next
    case False
    then show ?thesis
      using Cons.IH by (cases "js_split sep cs") simp_all
  qed
qed

lemma filter_js_split_leading:
  "filter truthy_string (js_split sep s) =
   filter truthy_string (js_split sep (dropWhile (\<lambda>x. x = sep) s))"
  by (induction s) (simp_all add: truthy_string_def)

lemma filter_js_split_tokens:
  "filter truthy_string (js_split sep s) = tokens (\<lambda>x. x = sep) s"
proof (induction "\<lambda>x. x = sep" s rule: tokens.induct)
  case (1 s)
  show ?case
  proof (cases "dropWhile (\<lambda>x. x = sep) s")
    case Nil
    have "tokens (\<lambda>x. x = sep) s = []"
      by (subst tokens.simps) (simp add: Nil)
    moreover have "filter truthy_string (js_split sep s) = []"
      by (subst filter_js_split_leading) (simp add: Nil truthy_string_def)
    ultimately show ?thesis by simp
  next
    case (Cons c t)
    then have c: "c \<noteq> sep"
      using hd_dropWhile [of "\<lambda>x. x = sep" s] by auto
    let ?rest = "dropWhile (\<lambda>x. x \<noteq> sep) t"
    have ih: "filter truthy_string (js_split sep ?rest) = tokens (\<lambda>x. x = sep) ?rest"
      using "1" [OF Cons] by simp
    have tail: "filter truthy_string (case ?rest of [] \<Rightarrow> [] | x # r \<Rightarrow> js_split sep r)
                 = filter truthy_string (js_split sep ?rest)"
    proof (cases ?rest)
      case Nil
      show ?thesis by (simp add: Nil truthy_string_def)
    next
      case (Cons x r)
      then have "x = sep"
        using hd_dropWhile [of "\<lambda>x. x \<noteq> sep" t] by auto
      then show ?thesis by (simp add: Cons truthy_string_def)
    qed
    have "filter truthy_string (js_split sep (c # t)) =
            (c # takeWhile (\<lambda>x. x \<noteq> sep) t) # filter truthy_string (js_split sep ?rest)"
      using c tail by (subst js_split_unfold) (simp add: truthy_string_def)
    moreover have "tokens (\<lambda>x. x = sep) s =
            (c # takeWhile (\<lambda>x. x \<noteq> sep) t) # tokens (\<lambda>x. x = sep) ?rest"
      by (subst tokens.simps) (simp add: Cons)
    moreover have "filter truthy_string (js_split sep s) =
            filter truthy_string (js_split sep (c # t))"
      by (subst filter_js_split_leading) (simp add: Cons)
    ultimately show ?thesis
      using ih by simp
  qed
qed

lemma tokens_no_empty: "[] \<notin> set (tokens P s)"
proof (induction P s rule: tokens.induct)
  case (1 P s)
  show ?case
  proof (cases "dropWhile P s")
    case Nil
    show ?thesis by (subst tokens.simps) (simp add: Nil)
  next
    case (Cons a r)
    show ?thesis
      using "1" [OF Cons] by (subst tokens.simps) (simp add: Cons)
  qed
qed

lemma tokens_no_sep: "t \<in> set (tokens P s) \<Longrightarrow> c \<in> set t \<Longrightarrow> \<not> P c"
proof (induction P s arbitrary: t rule: tokens.induct)
  case (1 P s)
  show ?case
  proof (cases "dropWhile P s")
    case Nil
    have "tokens P s = []"
      by (subst tokens.simps) (simp add: Nil)
    with "1.prems" show ?thesis by simp
  next
    case (Cons a r)
    then have a: "\<not> P a" using hd_dropWhile [of P s] by auto
    have "tokens P s = (a # takeWhile (\<lambda>x. \<not> P x) r) # tokens P (dropWhile (\<lambda>x. \<not> P x) r)"
      by (subst tokens.simps) (simp add: Cons)
    with "1.prems"(1) consider "t = a # takeWhile (\<lambda>x. \<not> P x) r"
      | "t \<in> set (tokens P (dropWhile (\<lambda>x. \<not> P x) r))"
      by auto
    then show ?thesis
    proof cases
      case 1
      with "1.prems"(2) a show ?thesis by (auto dest: set_takeWhileD)
    next
      case 2
      then show ?thesis using "1.IH" [OF Cons _ "1.prems"(2)] by simp
    qed
  qed
qed

lemma is_space_eq: "is_space = (\<lambda>x. x = CHR '' '')"
  by (rule ext) (simp add: is_space_def)

lemma tokens_example: "tokens is_space '' -O2  -Wall '' = [''-O2'', ''-Wall'']"
  by code_simp

section \<open>Decoding the chunks\<close>





lemma collect_stderr_Nil [simp]: "collect_stderr [] = []"
  by (simp add: collect_stderr_def)


lemma well_formed_ascii: "list_all (\<lambda>b. (of_char b :: nat) < 0x80) s \<Longrightarrow> well_formed_utf8 s"
  by (induction s) simp_all

lemma collect_stderr_host_fail:
  "collect_stderr (fst (child host_fail)) = ''main.c:1: error: x undeclared''"
  by code_simp


section \<open>Worlds and traces\<close>

text \<open>
  The calls that \<open>compile\<close> makes are written out once for a compiler that fails and once
  for one that succeeds; the claims read them off these lists.
\<close>

lemma trace_emit [simp]: "trace (emit es w) = trace w @ es"
  by (simp add: emit_def)

lemma files_emit [simp]: "files (emit es w) = files w"
  by (simp add: emit_def)

lemma new_events_append: "trace w' = trace w @ es \<Longrightarrow> new_events w w' = es"
  by (simp add: new_events_def)

lemma runProgram_plain:
  "filter is_notification (runProgram cfg rt info gdb) = []"
  "filter is_write (runProgram cfg rt info gdb) = []"
  "filter is_cleanup (runProgram cfg rt info gdb) = []"
  by (simp_all add: runProgram_def debug_def Let_def split: prod.splits)

lemma debug_plain:
  "filter is_notification (debug cfg l) = []"
  "filter is_write (debug cfg l) = []"
  "filter is_cleanup (debug cfg l) = []"
  "filter is_launch (debug cfg l) = []"
  by (simp_all add: debug_def)

lemma stderr_debug_plain:
  "filter is_notification (concat (map (\<lambda>data. debug cfg l) chunks)) = []"
  "filter is_write (concat (map (\<lambda>data. debug cfg l) chunks)) = []"
  "filter is_cleanup (concat (map (\<lambda>data. debug cfg l) chunks)) = []"
  "filter is_launch (concat (map (\<lambda>data. debug cfg l) chunks)) = []"
  by (induction chunks) (simp_all add: debug_def)


lemma files_write_error_file:
  "files (write_error_file cfg rt h info s w) =
     (if writeFile_error h = None then (files w)(artifact rt info \<mapsto> s) else files w)"
  by (auto simp: write_error_file_def Let_def split: option.splits sum.splits bool.splits)

lemma trace_delete_error_file:
  "trace (delete_error_file cfg rt h info w) =
     trace w @ [Access (artifact rt info)] @
     (if files w (artifact rt info) = None then debug cfg ''Error deleting compiling_error.txt:''
      else [Unlink (artifact rt info)] @
           (if unlink_error h = None
            then debug cfg ''compiling_error.txt has been deleted successfully.''
            else debug cfg ''Error deleting compiling_error.txt:''))"
  by (auto simp: delete_error_file_def Let_def split: option.splits)

lemma files_delete_error_file:
  "files (delete_error_file cfg rt h info w) =
     (if unlink_error h = None then (files w)(artifact rt info := None) else files w)"
  by (auto simp: delete_error_file_def Let_def split: option.splits)

lemma compile_spawned:
  assumes "activeEditor h = None \<or> save_error h = None"
  shows "compile cfg rt h (Some c) info args gdb w =
           on_close cfg rt h info gdb (collect_stderr (fst (child h))) (snd (child h))
             (emit ((if activeEditor h = None then [] else [Save]) @
                    [Spawn (Some c) args (dir info)] @
                    concat (map (\<lambda>data. debug cfg ''stderr'') (fst (child h)))) w)"
  using assms by (auto simp: compile_def emit_def Let_def split: option.splits)

lemma on_close_failure:
  assumes "code = Some n" and "n \<noteq> 0"
  shows "on_close cfg rt h info gdb s code w =
           (let w1 = emit (debug cfg ''exit code'' @
                           (if showErrorNotifications cfg then [Notify Error (br s)] else [])) w
            in (if addCompilingErr cfg then write_error_file cfg rt h info s w1 else w1, Pending))"
  using assms by (simp add: on_close_def Let_def emit_def)

lemma on_close_success:
  "on_close cfg rt h info gdb s (Some 0) w =
     (emit [Open (path_join rt (dir info) (base info)) None, ActivatePane]
        (delete_error_file cfg rt h info
           (emit (debug cfg ''exit code'' @
                  (if s \<noteq> [] \<and> showWarnings cfg then [Notify Warning (br s)] else []) @
                  (if runAfterCompile cfg then runProgram cfg rt info gdb
                   else [Notify Success ''Compilation Successful'']) @
                  (if closeErrorTabOnSuccess cfg
                   then map Destroy
                          (filter (\<lambda>p. p = artifact rt info)
                             (List.map_filter (\<lambda>p. p) (textEditors h)))
                   else [])) w)),
      Resolved)"
  by (simp add: on_close_def Let_def emit_def)


lemma destroy_matching:
  "map Destroy (filter (\<lambda>q. q = p) (List.map_filter (\<lambda>q. q) es)) =
   replicate (length (filter (\<lambda>e. e = Some p) es)) (Destroy p)"
  by (induction es) (auto split: option.splits)


lemma files_compile_failure:
  assumes "activeEditor h = None \<or> save_error h = None"
    and "snd (child h) = Some n" and "n \<noteq> 0" and "addCompilingErr cfg"
  shows "files (fst (compile cfg rt h (Some c) info args gdb w)) =
           (if writeFile_error h = None
            then (files w)(artifact rt info \<mapsto> collect_stderr (fst (child h))) else files w)"
  using assms
  by (simp add: compile_spawned on_close_failure [of _ n] Let_def files_write_error_file)

lemma trace_compile_success:
  assumes "activeEditor h = None \<or> save_error h = None" and "snd (child h) = Some 0"
  shows "trace (fst (compile cfg rt h (Some c) info args gdb w)) =
           trace w @
           ((if activeEditor h = None then [] else [Save]) @
            [Spawn (Some c) args (dir info)] @
            concat (map (\<lambda>data. debug cfg ''stderr'') (fst (child h))) @
            debug cfg ''exit code'' @
            (if collect_stderr (fst (child h)) \<noteq> [] \<and> showWarnings cfg
             then [Notify Warning (br (collect_stderr (fst (child h))))] else []) @
            (if runAfterCompile cfg then runProgram cfg rt info gdb
             else [Notify Success ''Compilation Successful'']) @
            (if closeErrorTabOnSuccess cfg
             then replicate (length (filter (\<lambda>e. e = Some (artifact rt info)) (textEditors h)))
                    (Destroy (artifact rt info))
             else []) @
            [Access (artifact rt info)] @
            (if files w (artifact rt info) = None
             then debug cfg ''Error deleting compiling_error.txt:''
             else [Unlink (artifact rt info)] @
                  (if unlink_error h = None
                   then debug cfg ''compiling_error.txt has been deleted successfully.''
                   else debug cfg ''Error deleting compiling_error.txt:'')) @
            [Open (path_join rt (dir info) (base info)) None, ActivatePane])"
  using assms
  by (simp add: compile_spawned on_close_success trace_delete_error_file destroy_matching)

lemma files_compile_success:
  assumes "activeEditor h = None \<or> save_error h = None" and "snd (child h) = Some 0"
  shows "files (fst (compile cfg rt h (Some c) info args gdb w)) =
           (if unlink_error h = None then (files w)(artifact rt info := None) else files w)"
  using assms
  by (simp add: compile_spawned on_close_success files_delete_error_file)

lemma outcome_compile_success:
  assumes "activeEditor h = None \<or> save_error h = None" and "snd (child h) = Some 0"
  shows "snd (compile cfg rt h (Some c) info args gdb w) = Resolved"
  using assms by (simp add: compile_spawned on_close_success)


section \<open>Terminals and the Windows command line\<close>

text \<open>
  The \<^verbatim>\<open>switch\<close> of the Linux branch agrees with the table of terminal specifications:
  the hold-open flag, where a terminal has one, comes first and is left out for a
  debugger session.
\<close>

lemma linux_terminal_spec:
  "linux_terminal t gdb =
     (command (terminal_spec t),
      (if gdb then [] else (case holdFlag (terminal_spec t) of None \<Rightarrow> [] | Some hf \<Rightarrow> [hf])) @
      argsPrefix (terminal_spec t))"
  by (cases t)
     (simp_all add: linux_terminal_def terminal_spec_def terminal_table_def default_terminal_def)

lemma terminal_spec_default:
  "t \<notin> set (map Some supported_terminals) \<Longrightarrow> terminal_spec t = default_terminal"
  by (cases t) (auto simp: terminal_spec_def terminal_table_def supported_terminals_def)

lemma windows_command_prefix:
  "prefix (''start '' @ [CHR 0x22] @ name info @ [CHR 0x22] @ '' cmd /C '' @ [CHR 0x22] @ ''gdb '')
     (windows_command info f gdb) \<longleftrightarrow> gdb"
proof -
  let ?head = "''start '' @ [CHR 0x22] @ name info @ [CHR 0x22] @ '' cmd /C '' @ [CHR 0x22]"
  have cmd: "windows_command info f gdb =
      ?head @ ((if gdb then ''gdb'' else []) @ '' '' @ f @ '' '' @
        (if gdb then [] else ''& echo. & pause''))"
    by (simp add: windows_command_def)
  have "prefix (?head @ ''gdb '') (windows_command info f gdb) \<longleftrightarrow>
        prefix ''gdb '' ((if gdb then ''gdb'' else []) @ '' '' @ f @ '' '' @
          (if gdb then [] else ''& echo. & pause''))"
    unfolding cmd by (rule same_prefix_prefix)
  also have "\<dots> \<longleftrightarrow> gdb"
    by simp
  finally show ?thesis by simp
qed

lemma suffix_last: "suffix (a @ [x]) (b @ [y]) \<Longrightarrow> x = y"
  by (auto simp: suffix_def dest: arg_cong [where f = last])

lemma windows_command_suffix:
  "suffix ''& echo. & pause'' (windows_command info f gdb) \<longleftrightarrow> \<not> gdb"
proof (cases gdb)
  case True
  have "windows_command info f True = (''start '' @ [CHR 0x22] @ name info @ [CHR 0x22] @
          '' cmd /C '' @ [CHR 0x22] @ ''gdb '' @ f) @ [CHR '' '']"
    by (simp add: windows_command_def)
  then obtain h where h: "windows_command info f True = h @ [CHR '' '']" ..
  have "\<not> suffix (''& echo. & paus'' @ [CHR ''e'']) (h @ [CHR '' ''])"
    using suffix_last [of "''& echo. & paus''" "CHR ''e''" h "CHR '' ''"] by auto
  then have "\<not> suffix ''& echo. & pause'' (windows_command info f True)"
    unfolding h by simp
  with True show ?thesis by simp
next
  case False
  then show ?thesis
    by (simp add: windows_command_def suffix_def)
qed

lemma windows_command_quote_count:
  assumes "CHR 0x22 \<notin> set (name info)" and "CHR 0x22 \<notin> set f"
  shows "length (filter (\<lambda>c. c = CHR 0x22) (windows_command info f gdb)) = 3"
proof -
  have "filter (\<lambda>c. c = CHR 0x22) (name info) = []" "filter (\<lambda>c. c = CHR 0x22) f = []"
    using assms by (auto simp: filter_empty_conv)
  then show ?thesis
    by (simp add: windows_command_def)
qed

section \<open>The editor command without a file\<close>

lemma compileFile_unsaved:
  assumes "activeEditor h = Some ed" and "buffer_file ed = None"
  shows "compileFile cfg rt h fileType gdb w =
     (emit [Notify Error ''<strong>File not found.</strong><br/>Save before compiling.''] w,
      Resolved)"
  using assms by (simp add: compileFile_def getFilePath_def)

lemma compileFile_no_editor_example:
  "new_events w0 (fst (compileFile cfg0 rt0 host_none (Some ''C'') False w0)) = [] \<and>
   snd (compileFile cfg0 rt0 host_none (Some ''C'') False w0) =
     Rejected (TypeError ''Cannot read properties of undefined (reading buffer)'') \<and>
   new_events w0 (fst (compileFile cfg0 rt0 host_untitled (Some ''C'') False w0)) =
     [Notify Error ''<strong>File not found.</strong><br/>Save before compiling.'']"
  by (simp add: compileFile_def getFilePath_def host_none_def host_untitled_def host0_def
      new_events_def w0_def emit_def)

section \<open>The claims\<close>

subsection \<open>C1: the compiler's argument vector\<close>

text \<open>
  C1, amended. For every language kind, list of source paths, extra-flags string and
  debugger choice, the argument vector is \<^verbatim>\<open>-g\<close> (exactly when the debugger was
  requested), the source paths in the caller's order, \<^verbatim>\<open>-o\<close> and the output path, and then
  the extra flags of that language split at the space character (U+0020) only, without
  empty tokens: no token is empty and none contains a space, however many spaces are
  repeated, leading or trailing. Other whitespace stays inside the tokens.
\<close>

theorem getArgs_vector:
  "getArgs cfg fs output fileType (if gdb then Some [''-g''] else None) =
     (if gdb then [''-g''] else []) @ fs @ [''-o'', output] @
     tokens is_space
       (if fileType = Some ''C++'' then cppCompilerOptions cfg else cCompilerOptions cfg)
   \<and> (\<forall>t \<in> set (tokens is_space
         (if fileType = Some ''C++'' then cppCompilerOptions cfg else cCompilerOptions cfg)).
        t \<noteq> [] \<and> CHR '' '' \<notin> set t)"
proof -
  let ?opts = "if fileType = Some ''C++'' then cppCompilerOptions cfg else cCompilerOptions cfg"
  have split: "filter truthy_string (js_split CHR '' '' ?opts) = tokens is_space ?opts"
    unfolding is_space_eq by (rule filter_js_split_tokens)
  have "getArgs cfg fs output fileType (if gdb then Some [''-g''] else None) =
     (if gdb then [''-g''] else []) @ fs @ [''-o'', output] @ tokens is_space ?opts"
    unfolding getArgs_def split by simp
  moreover have "t \<noteq> [] \<and> CHR '' '' \<notin> set t" if "t \<in> set (tokens is_space ?opts)" for t
    using that tokens_no_empty [of is_space ?opts] tokens_no_sep [of t is_space ?opts "CHR '' ''"]
    by (auto simp: is_space_def)
  ultimately show ?thesis by blast
qed

theorem getArgs_vector_witness:
  "getArgs cfg_flags [''a.c'', ''b.c''] ''/tmp/a'' (Some ''C++'') (Some [''-g'']) =
     [''-g'', ''a.c'', ''b.c'', ''-o'', ''/tmp/a'', ''-O2'', ''-Wall'']
   \<and> [] \<notin> set [''-O2'', ''-Wall''] \<and> CHR '' '' \<notin> set ''-O2'' \<and> CHR '' '' \<notin> set ''-Wall''"
  using getArgs_vector [of cfg_flags "[''a.c'', ''b.c'']" "''/tmp/a''" "Some ''C++''" True]
  by (simp add: cfg_flags_def cfg0_def tokens_example)

text \<open>
  C1 as stated, with the flags split on whitespace, fails for the C flags
  \<^verbatim>\<open>-O2<TAB>-Wall\<close>: the code passes them on as one argument, splitting on whitespace
  gives two.
\<close>

theorem getArgs_whitespace_counterexample:
  "getArgs cfg_tab [''main.c''] ''/tmp/main'' (Some ''C'') None \<noteq>
     [''main.c''] @ [''-o'', ''/tmp/main''] @ tokens is_whitespace (cCompilerOptions cfg_tab)"
  by code_simp

subsection \<open>C2: the terminal's arguments on Linux\<close>

text \<open>
  C2, amended. On Linux, for every terminal choice and debugger choice, the launcher spawns
  the terminal's command with: the terminal's hold-open flag when the terminal has one and
  the debugger is not attached (\<^verbatim>\<open>--hold\<close> for Konsole and xfce4-terminal, \<^verbatim>\<open>-hold\<close> for
  URxvt and xterm; GNOME Terminal, pantheon-terminal and MATE Terminal have none), then the
  terminal's argument prefix, then \<^verbatim>\<open>gdb\<close> exactly when the debugger is attached, then the
  compiled path. A choice that is unset or not among the six supported terminals gets the
  default terminal, xterm.
\<close>

theorem runProgram_linux:
  assumes "platform rt = ''linux''"
  shows "runProgram cfg rt info gdb =
           debug cfg ''command'' @
           [Spawn (Some (command (terminal_spec (linuxTerminal cfg))))
              ((if gdb then []
                else (case holdFlag (terminal_spec (linuxTerminal cfg)) of
                        None \<Rightarrow> [] | Some hf \<Rightarrow> [hf])) @
               argsPrefix (terminal_spec (linuxTerminal cfg)) @
               (if gdb then [''gdb''] else []) @
               [getCompiledPath cfg rt (dir info) (name info)])
              (dir info)]
         \<and> (linuxTerminal cfg \<notin> set (map Some supported_terminals) \<longrightarrow>
              terminal_spec (linuxTerminal cfg) = default_terminal)"
  using assms terminal_spec_default [of "linuxTerminal cfg"]
  by (simp add: runProgram_def linux_terminal_spec Let_def)

theorem runProgram_linux_witness:
  "platform rt0 = ''linux'' \<and>
   runProgram cfg_konsole rt0 info0 False =
     [Spawn (Some ''konsole'') [''--hold'', ''-e'', ''/tmp/main''] ''/home/u''] \<and>
   runProgram cfg_konsole rt0 info0 True =
     [Spawn (Some ''konsole'') [''-e'', ''gdb'', ''/tmp/main''] ''/home/u''] \<and>
   linuxTerminal cfg0 \<notin> set (map Some supported_terminals) \<and>
   runProgram cfg0 rt0 info0 False =
     [Spawn (Some ''xterm'') [''-hold'', ''-e'', ''/tmp/main''] ''/home/u'']"
  using runProgram_linux [of rt0 cfg_konsole info0 False]
    runProgram_linux [of rt0 cfg_konsole info0 True]
    runProgram_linux [of rt0 cfg0 info0 False]
  by (simp add: rt0_def cfg_konsole_def cfg0_def info0_def parse0_def join0_def debug_def
      getCompiledPath_def terminal_spec_def terminal_table_def default_terminal_def
      supported_terminals_def)

text \<open>
  C2 as stated, with a hold-open flag whenever the debugger is not attached, fails for
  GNOME Terminal: without the debugger its arguments are \<^verbatim>\<open>--command\<close> and the compiled
  path, and none of them is a hold-open flag.
\<close>

theorem runProgram_hold_counterexample:
  "runProgram cfg_gnome rt0 info0 False =
     [Spawn (Some ''gnome-terminal'') [''--command'', ''/tmp/main''] ''/home/u''] \<and>
   \<not> list_ex is_hold_flag [''--command'', ''/tmp/main'']"
  by (simp add: runProgram_def linux_terminal_def rt0_def cfg_gnome_def cfg0_def info0_def
      parse0_def join0_def debug_def getCompiledPath_def is_hold_flag_def)

subsection \<open>C3: no active editor\<close>

text \<open>
  C3. The claim asks that a compile without an active document ends in an error
  notification. The code does not: with no active text editor \<open>compileFile\<close> throws in
  \<^verbatim>\<open>getFilePath\<close>, outside its \<^verbatim>\<open>try\<close>, so its promise is rejected and the world is
  unchanged: nothing is spawned or written, and no notification is added. The editor command
  fails even earlier, in \<^verbatim>\<open>getFileType\<close>. (A buffer without a file does get the
  notification, see \<open>compileFile_unsaved\<close>.)
\<close>

theorem compileFile_without_editor:
  "compileFile cfg rt (h\<lparr>activeEditor := None\<rparr>) fileType gdb w =
     (w, Rejected (TypeError ''Cannot read properties of undefined (reading buffer)''))
   \<and> command_compile cfg rt (h\<lparr>activeEditor := None\<rparr>) gdb w =
     (w, Rejected (TypeError ''Cannot read properties of undefined (reading getGrammar)''))"
  by (simp add: compileFile_def getFilePath_def command_compile_def getFileType_def)

subsection \<open>C4: the diagnostics file of a failed compilation\<close>




subsection \<open>C5: cleaning up after a successful compilation\<close>

text \<open>
  C5. When the compiler exits with code zero, the promise resolves whether or not the
  diagnostics file exists; unless the operating system refuses the \<^verbatim>\<open>unlink\<close>, no file is
  left at the fixed path afterwards; every open editor showing that path is destroyed
  before the file is looked for, when close-on-success is enabled, and none otherwise; and
  so a successful compilation after a failed one in the same directory removes the file
  that the failed one wrote.
\<close>

theorem compile_success_cleanup:
  assumes "activeEditor h = None \<or> save_error h = None"
    and "snd (child h) = Some 0"
  shows "snd (compile cfg rt h (Some c) info args gdb w) = Resolved
       \<and> (unlink_error h = None \<longrightarrow>
            files (fst (compile cfg rt h (Some c) info args gdb w))
              (path_join rt (dir info) ''compiling_error.txt'') = None)
       \<and> filter is_cleanup (new_events w (fst (compile cfg rt h (Some c) info args gdb w))) =
            (if closeErrorTabOnSuccess cfg
             then replicate
                    (length (filter (\<lambda>e. e = Some (path_join rt (dir info) ''compiling_error.txt''))
                       (textEditors h)))
                    (Destroy (path_join rt (dir info) ''compiling_error.txt''))
             else []) @
            [Access (path_join rt (dir info) ''compiling_error.txt'')] @
            (if files w (path_join rt (dir info) ''compiling_error.txt'') = None then []
             else [Unlink (path_join rt (dir info) ''compiling_error.txt'')])
       \<and> ((activeEditor h1 = None \<or> save_error h1 = None) \<and> snd (child h1) = Some n \<and> n \<noteq> 0 \<and>
            addCompilingErr cfg1 \<and> writeFile_error h1 = None \<and> dir info1 = dir info \<and>
            unlink_error h = None \<longrightarrow>
            files (fst (compile cfg1 rt h1 (Some c1) info1 args1 gdb1 w))
              (path_join rt (dir info) ''compiling_error.txt'') = Some (collect_stderr (fst (child h1))) \<and>
            files (fst (compile cfg rt h (Some c) info args gdb
                          (fst (compile cfg1 rt h1 (Some c1) info1 args1 gdb1 w))))
              (path_join rt (dir info) ''compiling_error.txt'') = None)"
proof -
  let ?p = "path_join rt (dir info) ''compiling_error.txt''"
  have p: "artifact rt info = ?p"
    by (simp add: artifact_def)
  have deleted: "files (fst (compile cfg rt h (Some c) info args gdb v)) ?p = None"
    if "unlink_error h = None" for v
    using that by (simp add: files_compile_success [OF assms] p)
  have "snd (compile cfg rt h (Some c) info args gdb w) = Resolved"
    by (rule outcome_compile_success [OF assms])
  moreover have "filter is_cleanup (new_events w (fst (compile cfg rt h (Some c) info args gdb w))) =
      (if closeErrorTabOnSuccess cfg
       then replicate (length (filter (\<lambda>e. e = Some ?p) (textEditors h))) (Destroy ?p) else []) @
      [Access ?p] @ (if files w ?p = None then [] else [Unlink ?p])"
    unfolding new_events_append [OF trace_compile_success [OF assms, of cfg rt c info args gdb w]]
    by (simp add: debug_plain stderr_debug_plain runProgram_plain p)
  moreover have "files (fst (compile cfg1 rt h1 (Some c1) info1 args1 gdb1 w)) ?p =
      Some (collect_stderr (fst (child h1)))"
    if "activeEditor h1 = None \<or> save_error h1 = None" "snd (child h1) = Some n" "n \<noteq> 0"
      "addCompilingErr cfg1" "writeFile_error h1 = None" "dir info1 = dir info"
    using that by (simp add: files_compile_failure [of h1 n cfg1] artifact_def)
  ultimately show ?thesis
    using deleted by blast
qed

theorem compile_success_cleanup_witness:
  "files w_failed ''/home/u/compiling_error.txt'' = Some ''main.c:1: error: x undeclared''
   \<and> files (fst (compile cfg0 rt0 host_tab (Some ''gcc'') info0 [''main.c''] False w_failed))
       ''/home/u/compiling_error.txt'' = None
   \<and> filter is_cleanup
       (new_events w_failed
          (fst (compile cfg0 rt0 host_tab (Some ''gcc'') info0 [''main.c''] False w_failed))) =
       [Destroy ''/home/u/compiling_error.txt'', Access ''/home/u/compiling_error.txt'',
        Unlink ''/home/u/compiling_error.txt'']
   \<and> snd (compile cfg0 rt0 host_tab (Some ''gcc'') info0 [''main.c''] False w_failed) = Resolved"
proof -
  have a: "activeEditor host_tab = None \<or> save_error host_tab = None"
    and b: "snd (child host_tab) = Some 0"
    by (simp_all add: host_tab_def host0_def)
  have f: "(activeEditor host_fail = None \<or> save_error host_fail = None) \<and>
      snd (child host_fail) = Some 1 \<and> (1::int) \<noteq> 0 \<and> addCompilingErr cfg0 \<and>
      writeFile_error host_fail = None \<and> dir info0 = dir info0 \<and> unlink_error host_tab = None"
    by (simp add: host_fail_def host_tab_def host0_def cfg0_def)
  have p: "path_join rt0 (dir info0) ''compiling_error.txt'' = ''/home/u/compiling_error.txt''"
    by (simp add: rt0_def info0_def parse0_def join0_def)
  have c: "collect_stderr (fst (child host_fail)) = ''main.c:1: error: x undeclared''"
    by (rule collect_stderr_host_fail)
  have t: "textEditors host_tab = [Some ''/home/u/main.c'', Some ''/home/u/compiling_error.txt'']"
    and o: "closeErrorTabOnSuccess cfg0"
    by (simp_all add: host_tab_def host0_def cfg0_def)
  note inst = compile_success_cleanup [OF a b,
      of cfg0 rt0 "''gcc''" info0 "[''main.c'']" False _ host_fail 1 cfg0 info0 "''gcc''"
        "[''main.c'']" False]
  from inst [of w0] f have w: "files w_failed ''/home/u/compiling_error.txt'' =
      Some ''main.c:1: error: x undeclared''"
    unfolding w_failed_def p c by blast
  from inst [of w_failed] f w show ?thesis
    unfolding p t by (simp add: o)
qed

subsection \<open>C6: running after a successful compilation\<close>

text \<open>
  C6. When the compiler exits with code zero, \<^verbatim>\<open>fs.writeFile\<close> is not called and no file
  comes into being; the processes started are the compiler and, exactly when
  run-after-compile is enabled, those of the launcher; and the notifications are the
  warnings (if any, and if enabled) followed by the success notification exactly when
  run-after-compile is disabled.
\<close>

theorem compile_success_run:
  assumes "activeEditor h = None \<or> save_error h = None"
    and "snd (child h) = Some 0"
  shows "filter is_write (new_events w (fst (compile cfg rt h (Some c) info args gdb w))) = []
       \<and> dom (files (fst (compile cfg rt h (Some c) info args gdb w))) \<subseteq> dom (files w)
       \<and> filter is_launch (new_events w (fst (compile cfg rt h (Some c) info args gdb w))) =
            Spawn (Some c) args (dir info) #
            (if runAfterCompile cfg then filter is_launch (runProgram cfg rt info gdb) else [])
       \<and> filter is_notification (new_events w (fst (compile cfg rt h (Some c) info args gdb w))) =
            (if collect_stderr (fst (child h)) \<noteq> [] \<and> showWarnings cfg
             then [Notify Warning (br (collect_stderr (fst (child h))))] else []) @
            (if runAfterCompile cfg then [] else [Notify Success ''Compilation Successful''])"
proof -
  let ?r = "compile cfg rt h (Some c) info args gdb w"
  note tr = new_events_append [OF trace_compile_success [OF assms, of cfg rt c info args gdb w]]
  have "filter is_write (new_events w (fst ?r)) = []"
    unfolding tr by (simp add: debug_plain stderr_debug_plain runProgram_plain)
  moreover have "dom (files (fst ?r)) \<subseteq> dom (files w)"
    by (auto simp: files_compile_success [OF assms] split: if_splits)
  moreover have "filter is_launch (new_events w (fst ?r)) =
      Spawn (Some c) args (dir info) #
      (if runAfterCompile cfg then filter is_launch (runProgram cfg rt info gdb) else [])"
    unfolding tr by (simp add: debug_plain stderr_debug_plain)
  moreover have "filter is_notification (new_events w (fst ?r)) =
      (if collect_stderr (fst (child h)) \<noteq> [] \<and> showWarnings cfg
       then [Notify Warning (br (collect_stderr (fst (child h))))] else []) @
      (if runAfterCompile cfg then [] else [Notify Success ''Compilation Successful''])"
    unfolding tr by (simp add: debug_plain stderr_debug_plain runProgram_plain)
  ultimately show ?thesis by blast
qed

theorem compile_success_run_witness:
  "filter is_launch
     (new_events w0 (fst (compile cfg0 rt0 host0 (Some ''gcc'') info0 [''main.c''] False w0))) =
     [Spawn (Some ''gcc'') [''main.c''] ''/home/u'',
      Spawn (Some ''xterm'') [''-hold'', ''-e'', ''/tmp/main''] ''/home/u'']
   \<and> filter is_launch
     (new_events w0 (fst (compile cfg_norun rt0 host0 (Some ''gcc'') info0 [''main.c''] False w0))) =
     [Spawn (Some ''gcc'') [''main.c''] ''/home/u'']
   \<and> filter is_notification
     (new_events w0 (fst (compile cfg_norun rt0 host0 (Some ''gcc'') info0 [''main.c''] False w0))) =
     [Notify Success ''Compilation Successful'']
   \<and> filter is_write
     (new_events w0 (fst (compile cfg0 rt0 host0 (Some ''gcc'') info0 [''main.c''] False w0))) = []"
proof -
  have a: "activeEditor host0 = None \<or> save_error host0 = None"
    and b: "snd (child host0) = Some 0"
    by (simp_all add: host0_def)
  have run: "filter is_launch (runProgram cfg0 rt0 info0 False) =
      [Spawn (Some ''xterm'') [''-hold'', ''-e'', ''/tmp/main''] ''/home/u'']"
    by (simp add: runProgram_def linux_terminal_def getCompiledPath_def debug_def cfg0_def
        rt0_def info0_def parse0_def join0_def)
  have d: "dir info0 = ''/home/u''" "fst (child host0) = []"
    "runAfterCompile cfg0" "\<not> runAfterCompile cfg_norun"
    by (simp_all add: info0_def parse0_def host0_def cfg0_def cfg_norun_def)
  show ?thesis
    using compile_success_run [OF a b, of w0 cfg0 rt0 "''gcc''" info0 "[''main.c'']" False]
      compile_success_run [OF a b, of w0 cfg_norun rt0 "''gcc''" info0 "[''main.c'']" False]
    by (simp add: run d)
qed

subsection \<open>C7: the Windows command line\<close>

text \<open>
  C7. On Windows the launcher passes one command line to \<^verbatim>\<open>child_process.exec\<close> (a shell)
  and spawns nothing. The line begins with \<^verbatim>\<open>start "<name>" cmd /C "\<close>, the new console
  titled with the binary's base name; \<^verbatim>\<open>gdb\<close> follows exactly when the debugger is
  attached, and the line ends with \<^verbatim>\<open>& echo. & pause\<close> exactly when it is not.
\<close>

theorem runProgram_windows:
  assumes "platform rt = ''win32''"
  shows "runProgram cfg rt info gdb =
           debug cfg ''command'' @
           [Exec (windows_command info (getCompiledPath cfg rt (dir info) (name info)) gdb)
              (dir info)]
       \<and> prefix (''start '' @ [CHR 0x22] @ name info @ [CHR 0x22] @ '' cmd /C '' @ [CHR 0x22])
            (windows_command info (getCompiledPath cfg rt (dir info) (name info)) gdb)
       \<and> (prefix (''start '' @ [CHR 0x22] @ name info @ [CHR 0x22] @ '' cmd /C '' @ [CHR 0x22] @
                  ''gdb '')
            (windows_command info (getCompiledPath cfg rt (dir info) (name info)) gdb)
          \<longleftrightarrow> gdb)
       \<and> (suffix ''& echo. & pause''
            (windows_command info (getCompiledPath cfg rt (dir info) (name info)) gdb)
          \<longleftrightarrow> \<not> gdb)
       \<and> \<not> list_ex is_spawn (runProgram cfg rt info gdb)"
proof -
  let ?f = "getCompiledPath cfg rt (dir info) (name info)"
  have run: "runProgram cfg rt info gdb =
      debug cfg ''command'' @ [Exec (windows_command info ?f gdb) (dir info)]"
    using assms by (simp add: runProgram_def Let_def)
  have "prefix (''start '' @ [CHR 0x22] @ name info @ [CHR 0x22] @ '' cmd /C '' @ [CHR 0x22])
      (windows_command info ?f gdb)"
    by (simp add: windows_command_def)
  moreover have "\<not> list_ex is_spawn (runProgram cfg rt info gdb)"
    unfolding run by (simp add: debug_def)
  ultimately show ?thesis
    using run windows_command_prefix [of info ?f gdb] windows_command_suffix [of info ?f gdb]
    by blast
qed

theorem runProgram_windows_witness:
  "platform rt_win = ''win32'' \<and>
   runProgram cfg0 rt_win info0 False =
     [Exec (''start '' @ [CHR 0x22] @ ''main'' @ [CHR 0x22] @ '' cmd /C '' @ [CHR 0x22] @
            '' /tmp/main & echo. & pause'') ''/home/u''] \<and>
   runProgram cfg0 rt_win info0 True =
     [Exec (''start '' @ [CHR 0x22] @ ''main'' @ [CHR 0x22] @ '' cmd /C '' @ [CHR 0x22] @
            ''gdb /tmp/main '') ''/home/u'']"
proof -
  have a: "platform rt_win = ''win32''"
    by (simp add: rt_win_def)
  have c: "windows_command info0 (getCompiledPath cfg0 rt_win (dir info0) (name info0)) False =
      ''start '' @ [CHR 0x22] @ ''main'' @ [CHR 0x22] @ '' cmd /C '' @ [CHR 0x22] @
      '' /tmp/main & echo. & pause''"
    "windows_command info0 (getCompiledPath cfg0 rt_win (dir info0) (name info0)) True =
      ''start '' @ [CHR 0x22] @ ''main'' @ [CHR 0x22] @ '' cmd /C '' @ [CHR 0x22] @
      ''gdb /tmp/main ''"
    by (simp_all add: windows_command_def getCompiledPath_def cfg0_def rt_win_def rt0_def
        info0_def parse0_def join0_def)
  have d: "debug cfg0 ''command'' = []" "dir info0 = ''/home/u''"
    by (simp_all add: debug_def cfg0_def info0_def parse0_def)
  from runProgram_windows [OF a, of cfg0 info0 False] runProgram_windows [OF a, of cfg0 info0 True]
  show ?thesis
    unfolding c unfolding d using a by simp
qed

subsection \<open>C8: the unbalanced quote\<close>

text \<open>
  C8. When neither the base name nor the compiled path contains a double quote, the
  Windows command line has exactly three of them: the two around the title and the one
  opened after \<^verbatim>\<open>cmd /C\<close>, after which no quote follows.
\<close>

theorem windows_command_unbalanced_quote:
  assumes "platform rt = ''win32''"
    and "CHR 0x22 \<notin> set (name info)"
    and "CHR 0x22 \<notin> set (getCompiledPath cfg rt (dir info) (name info))"
  shows "\<exists>cmd rest.
           runProgram cfg rt info gdb = debug cfg ''command'' @ [Exec cmd (dir info)] \<and>
           length (filter (\<lambda>c. c = CHR 0x22) cmd) = 3 \<and>
           cmd = ''start '' @ [CHR 0x22] @ name info @ [CHR 0x22] @ '' cmd /C '' @ [CHR 0x22] @ rest \<and>
           CHR 0x22 \<notin> set rest"
proof -
  let ?f = "getCompiledPath cfg rt (dir info) (name info)"
  let ?rest = "(if gdb then ''gdb'' else []) @ '' '' @ ?f @ '' '' @
      (if gdb then [] else ''& echo. & pause'')"
  have "runProgram cfg rt info gdb =
      debug cfg ''command'' @ [Exec (windows_command info ?f gdb) (dir info)]"
    using assms(1) by (simp add: runProgram_def Let_def)
  moreover have "length (filter (\<lambda>c. c = CHR 0x22) (windows_command info ?f gdb)) = 3"
    by (rule windows_command_quote_count [OF assms(2,3)])
  moreover have "windows_command info ?f gdb =
      ''start '' @ [CHR 0x22] @ name info @ [CHR 0x22] @ '' cmd /C '' @ [CHR 0x22] @ ?rest"
    by (simp add: windows_command_def)
  moreover have "CHR 0x22 \<notin> set ?rest"
    using assms(3) by simp
  ultimately show ?thesis by blast
qed

theorem windows_command_unbalanced_quote_witness:
  "platform rt_win = ''win32'' \<and> CHR 0x22 \<notin> set (name info0) \<and>
   CHR 0x22 \<notin> set (getCompiledPath cfg0 rt_win (dir info0) (name info0)) \<and>
   (\<exists>cmd rest.
      runProgram cfg0 rt_win info0 False = debug cfg0 ''command'' @ [Exec cmd (dir info0)] \<and>
      length (filter (\<lambda>c. c = CHR 0x22) cmd) = 3 \<and>
      cmd = ''start '' @ [CHR 0x22] @ name info0 @ [CHR 0x22] @ '' cmd /C '' @ [CHR 0x22] @ rest \<and>
      CHR 0x22 \<notin> set rest)"
proof -
  have a: "platform rt_win = ''win32''"
    and b: "CHR 0x22 \<notin> set (name info0)"
    and c: "CHR 0x22 \<notin> set (getCompiledPath cfg0 rt_win (dir info0) (name info0))"
    by (simp_all add: rt_win_def rt0_def info0_def parse0_def join0_def getCompiledPath_def
        cfg0_def)
  from windows_command_unbalanced_quote [OF a b c, of False] a b c
  show ?thesis by blast
qed

subsection \<open>C9: macOS ignores the debugger\<close>

text \<open>
  C9. On macOS the launcher spawns \<^verbatim>\<open>open\<close> with the compiled path as its only argument,
  the same with and without the debugger.
\<close>

theorem runProgram_darwin:
  assumes "platform rt = ''darwin''"
  shows "runProgram cfg rt info True = runProgram cfg rt info False \<and>
         runProgram cfg rt info gdb =
           [Spawn (Some ''open'') [getCompiledPath cfg rt (dir info) (name info)] (dir info)]"
  using assms by (simp add: runProgram_def Let_def)

theorem runProgram_darwin_witness:
  "platform rt_darwin = ''darwin'' \<and>
   runProgram cfg0 rt_darwin info0 True = runProgram cfg0 rt_darwin info0 False \<and>
   runProgram cfg0 rt_darwin info0 True = [Spawn (Some ''open'') [''/tmp/main''] ''/home/u'']"
proof -
  have a: "platform rt_darwin = ''darwin''"
    by (simp add: rt_darwin_def)
  have b: "getCompiledPath cfg0 rt_darwin (dir info0) (name info0) = ''/tmp/main''"
    "dir info0 = ''/home/u''"
    by (simp_all add: getCompiledPath_def cfg0_def rt_darwin_def rt0_def info0_def parse0_def
        join0_def)
  from runProgram_darwin [OF a, of cfg0 info0 True] a
  show ?thesis
    unfolding b(1) unfolding b(2) by blast
qed

subsection \<open>C10: no compiler for other file types\<close>

text \<open>
  C10. For every file type other than exactly \<^verbatim>\<open>C\<close> and \<^verbatim>\<open>C++\<close>, an absent one
  included, \<open>getCommand\<close> returns nothing, and \<open>compile\<close> calls \<^verbatim>\<open>spawn\<close> with that
  absent command all the same: after saving the editor, the spawn with no command is the
  next call made, also when the compilation starts from \<open>compileFile\<close>.
\<close>

theorem getCommand_absent_unguarded:
  assumes "fileType \<noteq> Some ''C''" and "fileType \<noteq> Some ''C++''"
  shows "getCommand cfg fileType = None
       \<and> (activeEditor h = None \<or> save_error h = None \<longrightarrow>
            new_events w (fst (compile cfg rt h (getCommand cfg fileType) info args gdb w)) =
              (if activeEditor h = None then [] else [Save]) @ [Spawn None args (dir info)])
       \<and> (activeEditor h = Some ed \<and> buffer_file ed = Some p \<and> save_error h = None \<longrightarrow>
            Spawn None
              (getArgs cfg [p]
                 (getCompiledPath cfg rt (dir (path_parse rt p)) (name (path_parse rt p)))
                 fileType (if gdb then Some [''-g''] else None))
              (dir (path_parse rt p))
              \<in> set (new_events w (fst (compileFile cfg rt h fileType gdb w))))"
proof -
  have none: "getCommand cfg fileType = None"
    using assms by (simp add: getCommand_def)
  have "new_events w (fst (compile cfg rt h None info args gdb w)) =
      (if activeEditor h = None then [] else [Save]) @ [Spawn None args (dir info)]"
    if "activeEditor h = None \<or> save_error h = None"
    using that by (auto simp: compile_def new_events_def Let_def split: option.splits)
  moreover have "Spawn None
      (getArgs cfg [p] (getCompiledPath cfg rt (dir (path_parse rt p)) (name (path_parse rt p)))
         fileType (if gdb then Some [''-g''] else None))
      (dir (path_parse rt p)) \<in> set (new_events w (fst (compileFile cfg rt h fileType gdb w)))"
    if "activeEditor h = Some ed" "buffer_file ed = Some p" "save_error h = None"
    using that
    by (simp add: compileFile_def getFilePath_def none compile_def new_events_def Let_def)
  ultimately show ?thesis
    using none by simp
qed

theorem getCommand_absent_unguarded_witness:
  "getCommand cfg0 (Some ''Python'') = None
   \<and> getCommand cfg0 None = None
   \<and> new_events w0 (fst (compile cfg0 rt0 host0 (getCommand cfg0 None) info0 [''main.c''] False w0)) =
       [Save, Spawn None [''main.c''] ''/home/u'']
   \<and> Spawn None [''/home/u/main.c'', ''-o'', ''/tmp/main''] ''/home/u''
       \<in> set (new_events w0 (fst (compileFile cfg0 rt0 host0 (Some ''Python'') False w0)))"
proof -
  have a: "Some ''Python'' \<noteq> Some ''C''" "Some ''Python'' \<noteq> Some ''C++''"
    and b: "(None :: string option) \<noteq> Some ''C''" "(None :: string option) \<noteq> Some ''C++''"
    by simp_all
  have c: "activeEditor host0 = Some ed0 \<and> buffer_file ed0 = Some ''/home/u/main.c'' \<and>
      save_error host0 = None"
    by (simp add: host0_def ed0_def)
  have d: "getArgs cfg0 [''/home/u/main.c'']
      (getCompiledPath cfg0 rt0 (dir (path_parse rt0 ''/home/u/main.c''))
         (name (path_parse rt0 ''/home/u/main.c'')))
      (Some ''Python'') (if False then Some [''-g''] else None) =
      [''/home/u/main.c'', ''-o'', ''/tmp/main'']"
    by (simp add: getArgs_def getCompiledPath_def truthy_string_def cfg0_def rt0_def parse0_def
        join0_def)
  have e: "dir (path_parse rt0 ''/home/u/main.c'') = ''/home/u''" "dir info0 = ''/home/u''"
    by (simp_all add: rt0_def parse0_def info0_def)
  have f: "activeEditor host0 = None \<or> save_error host0 = None"
    and g: "(if activeEditor host0 = None then [] else [Save]) @
        [Spawn None [''main.c''] ''/home/u''] = [Save, Spawn None [''main.c''] ''/home/u'']"
    by (simp_all add: host0_def)
  from getCommand_absent_unguarded [OF a, of cfg0 host0 w0 rt0 info0 "[''main.c'']" False ed0
      "''/home/u/main.c''"] c
  have "getCommand cfg0 (Some ''Python'') = None"
    and "Spawn None [''/home/u/main.c'', ''-o'', ''/tmp/main''] ''/home/u''
       \<in> set (new_events w0 (fst (compileFile cfg0 rt0 host0 (Some ''Python'') False w0)))"
    unfolding d unfolding e by blast+
  moreover
  from getCommand_absent_unguarded [OF b, of cfg0 host0 w0 rt0 info0 "[''main.c'']" False ed0
      "''/home/u/main.c''"] f
  have "getCommand cfg0 None = None"
    and "new_events w0 (fst (compile cfg0 rt0 host0 (getCommand cfg0 None) info0 [''main.c'']
           False w0)) = [Save, Spawn None [''main.c''] ''/home/u'']"
    unfolding e g by blast+
  ultimately show ?thesis by blast
qed

end
